theory Spec2Isabelle
  imports Complex_Main "HOL-Library.AList"
begin

section \<open>The ML predictor of backend/app/ml/predictor.py\<close>

text \<open>
  Python floats are modelled as \<^typ>\<open>real\<close>: every statement below is about exact
  arithmetic, and rounding is left out. Python lists of floats are \<^typ>\<open>real list\<close>.
  Exceptions are values of the type \<open>error\<close>; a method that may raise returns
  \<open>error + 'a\<close>, with \<open>Inl\<close> for the exception.
\<close>

subsection \<open>Errors\<close>

datatype error =
    NotLoaded string    \<comment> \<open>the ValueError raised by the guard of a serving method\<close>
  | IndexError          \<comment> \<open>reading a list or an array row out of range\<close>
  | UnpackError         \<comment> \<open>the ValueError of a tuple unpacking of the wrong length\<close>
  | AttributeError      \<comment> \<open>a stored object lacks the method that is called on it\<close>
  | ArtifactError string \<comment> \<open>an exception raised inside an unpickled artifact\<close>

subsection \<open>Models\<close>

text \<open>
  A trained artifact is an opaque unpickled object; its methods are parameters. Each takes
  the single row of the reshaped array and either raises (\<open>Inl\<close> the message) or returns.
  The \<open>option\<close> around \<open>predict_proba\<close> and \<open>decision_function\<close> is Python's
  \<open>hasattr\<close>.
\<close>

datatype sla_model =
    FallbackSLAPredictor
  | TrainedSLAPredictor "real list \<Rightarrow> string + int" "(real list \<Rightarrow> string + real \<times> real) option"

datatype anomaly_model =
    FallbackAnomalyDetector
  | TrainedAnomalyDetector "real list \<Rightarrow> string + int" "(real list \<Rightarrow> string + real) option"

datatype scaler =
    FallbackScaler
  | TrainedScaler "real list \<Rightarrow> string + real list"

text \<open>
  What \<open>explainer.shap_values\<close> returns: a Python list of per-class arrays (each with the
  one row of the input), or one array with that row.
\<close>

datatype shap_output = ShapList "real list list" | ShapArray "real list"

datatype shap_explainer = ShapExplainer "real list \<Rightarrow> string + shap_output" real

datatype artifact =
    SLAModel sla_model
  | AnomalyModel anomaly_model
  | ExplainerModel shap_explainer

definition lift_artifact :: "string + 'a \<Rightarrow> error + 'a" where
  "lift_artifact r = (case r of Inl msg \<Rightarrow> Inl (ArtifactError msg) | Inr v \<Rightarrow> Inr v)"

subsection \<open>The fallback models\<close>

text \<open>FallbackSLAPredictor.predict on the one row: latency, packet loss, throughput.\<close>

definition fallback_sla_predict :: "real list \<Rightarrow> error + int" where
  "fallback_sla_predict row =
     (if length row < 5 then Inl IndexError
      else if row ! 4 > 10 \<or> row ! 3 > 5 \<or> row ! 1 < 1 then Inr 1 else Inr 0)"

text \<open>FallbackSLAPredictor.predict_proba on the one row: the pair [1 - risk, risk].\<close>

definition fallback_sla_predict_proba :: "real list \<Rightarrow> error + real \<times> real" where
  "fallback_sla_predict_proba row =
     (if length row < 5 then Inl IndexError
      else
        let latency_risk = min (row ! 4 / 20) 1;
            packet_loss_risk = min (row ! 3 / 10) 1;
            throughput_risk = max 0 ((2 - row ! 1) / 2);
            risk = (latency_risk + packet_loss_risk + throughput_risk) / 3
        in Inr (1 - risk, risk))"

text \<open>
  FallbackAnomalyDetector.predict: \<open>row[5]\<close> is read only when the first two tests of the
  \<open>or\<close> are false.
\<close>

definition fallback_anomaly_predict :: "real list \<Rightarrow> error + int" where
  "fallback_anomaly_predict row =
     (if length row < 5 then Inl IndexError
      else if row ! 4 > 20 \<or> row ! 3 > 15 then Inr (- 1)
      else if length row < 6 then Inl IndexError
      else if row ! 5 > 5 then Inr (- 1) else Inr 1)"

definition fallback_decision_function :: "real list \<Rightarrow> error + real" where
  "fallback_decision_function row =
     (if length row < 6 then Inl IndexError
      else
        let score = 1 - (row ! 4 / 30 + row ! 3 / 20 + row ! 5 / 10) / 3
        in Inr (max (- 1) (min 1 score)))"

subsection \<open>Method dispatch\<close>

fun sla_predict :: "sla_model \<Rightarrow> real list \<Rightarrow> error + int" where
  "sla_predict FallbackSLAPredictor row = fallback_sla_predict row"
| "sla_predict (TrainedSLAPredictor p pp) row = lift_artifact (p row)"

fun sla_predict_proba :: "sla_model \<Rightarrow> (real list \<Rightarrow> error + real \<times> real) option" where
  "sla_predict_proba FallbackSLAPredictor = Some fallback_sla_predict_proba"
| "sla_predict_proba (TrainedSLAPredictor p pp) =
     (case pp of None \<Rightarrow> None | Some f \<Rightarrow> Some (\<lambda>row. lift_artifact (f row)))"

fun anomaly_predict :: "anomaly_model \<Rightarrow> real list \<Rightarrow> error + int" where
  "anomaly_predict FallbackAnomalyDetector row = fallback_anomaly_predict row"
| "anomaly_predict (TrainedAnomalyDetector p d) row = lift_artifact (p row)"

fun anomaly_decision_function :: "anomaly_model \<Rightarrow> (real list \<Rightarrow> error + real) option" where
  "anomaly_decision_function FallbackAnomalyDetector = Some fallback_decision_function"
| "anomaly_decision_function (TrainedAnomalyDetector p d) =
     (case d of None \<Rightarrow> None | Some f \<Rightarrow> Some (\<lambda>row. lift_artifact (f row)))"

fun scaler_transform :: "scaler \<Rightarrow> real list \<Rightarrow> error + real list" where
  "scaler_transform FallbackScaler row = Inr row"
| "scaler_transform (TrainedScaler t) row = lift_artifact (t row)"

subsection \<open>The predictor object\<close>

text \<open>
  \<open>self.models\<close> is a dict whose key order \<open>get_model_info\<close> reports, so it is an
  association list in insertion order; \<open>AList.update\<close> is the dict assignment (an
  existing key keeps its place, a new key goes last).
\<close>

record MLPredictor =
  model_dir :: string
  models :: "(string \<times> artifact) list"
  scalers :: "string \<rightharpoonup> scaler"
  feature_names :: "string list"
  models_loaded :: bool

definition default_feature_names :: "string list" where
  "default_feature_names =
     [''bandwidth'', ''throughput'', ''congestion'', ''packet_loss'', ''latency'', ''jitter'']"

definition init :: "string \<Rightarrow> MLPredictor" where
  "init dir = \<lparr>model_dir = dir, models = [], scalers = Map.empty,
               feature_names = [], models_loaded = False\<rparr>"

subsection \<open>predict_sla_violation\<close>

record sla_result =
  prediction :: int
  probability :: real
  confidence :: real
  model_version :: string

text \<open>
  The argument \<open>rnd\<close> is the draw of \<open>np.random.random()\<close>, a number in [0, 1).
  Every exception of the body is logged and raised again.
\<close>

definition predict_sla_violation :: "MLPredictor \<Rightarrow> real list \<Rightarrow> real \<Rightarrow> error + sla_result" where
  "predict_sla_violation self features rnd =
     (if \<not> models_loaded self \<or> map_of (models self) ''sla_predictor'' = None
      then Inl (NotLoaded ''SLA predictor model not loaded'')
      else case map_of (models self) ''sla_predictor'' of
        Some (SLAModel model) \<Rightarrow>
          (case sla_predict model features of
             Inl e \<Rightarrow> Inl e
           | Inr pred \<Rightarrow>
               (case (case sla_predict_proba model of
                        Some pp \<Rightarrow> (case pp features of Inl e \<Rightarrow> Inl e | Inr ps \<Rightarrow> Inr (snd ps))
                      | None \<Rightarrow> Inr (real_of_int pred)) of
                  Inl e \<Rightarrow> Inl e
                | Inr prob \<Rightarrow>
                    Inr \<lparr>prediction = pred, probability = prob,
                         confidence = 0.85 + rnd * 0.1, model_version = ''v1.0''\<rparr>))
      | _ \<Rightarrow> Inl AttributeError)"

text \<open>A valid feature vector: six values, none negative, congestion and packet loss at most 100.\<close>

definition valid_features :: "real list \<Rightarrow> bool" where
  "valid_features x \<longleftrightarrow>
     length x = 6 \<and> list_all (\<lambda>v. 0 \<le> v) x \<and> x ! 2 \<le> 100 \<and> x ! 3 \<le> 100"

subsection \<open>detect_anomaly\<close>

text \<open>
  The explanation is a string in the source; here it is kept as the list of its parts, with
  the numbers unformatted. Unpacking the features raises unless there are exactly six.
\<close>

datatype anomaly_reason =
    HighLatency real
  | HighPacketLoss real
  | HighJitter real
  | HighCongestion real
  | LowThroughputEfficiency

datatype anomaly_explanation =
    WithinNormalParameters
  | Reasons "anomaly_reason list"
  | AnomalousPattern

definition generate_anomaly_explanation :: "real list \<Rightarrow> bool \<Rightarrow> error + anomaly_explanation" where
  "generate_anomaly_explanation features is_anom =
     (if \<not> is_anom then Inr WithinNormalParameters
      else case features of
        [bandwidth, throughput, congestion, packet_loss, latency, jitter] \<Rightarrow>
          (let explanations =
                 (if latency > 15 then [HighLatency latency] else []) @
                 (if packet_loss > 5 then [HighPacketLoss packet_loss] else []) @
                 (if jitter > 5 then [HighJitter jitter] else []) @
                 (if congestion > 80 then [HighCongestion congestion] else []) @
                 (if throughput < bandwidth * 0.3 then [LowThroughputEfficiency] else [])
           in Inr (if explanations \<noteq> [] then Reasons explanations else AnomalousPattern))
      | _ \<Rightarrow> Inl UnpackError)"

record anomaly_result =
  is_anomaly :: bool
  anomaly_score :: real
  explanation :: anomaly_explanation

text \<open>The features are scaled when a scaler named standard is there.\<close>

definition scale_features :: "MLPredictor \<Rightarrow> real list \<Rightarrow> error + real list" where
  "scale_features self features =
     (case scalers self ''standard'' of
        Some sc \<Rightarrow> scaler_transform sc features
      | None \<Rightarrow> Inr features)"

definition detect_anomaly :: "MLPredictor \<Rightarrow> real list \<Rightarrow> error + anomaly_result" where
  "detect_anomaly self features =
     (if \<not> models_loaded self \<or> map_of (models self) ''anomaly_detector'' = None
      then Inl (NotLoaded ''Anomaly detector model not loaded'')
      else case scale_features self features of
        Inl e \<Rightarrow> Inl e
      | Inr features_scaled \<Rightarrow>
          (case map_of (models self) ''anomaly_detector'' of
             Some (AnomalyModel model) \<Rightarrow>
               (case anomaly_predict model features_scaled of
                  Inl e \<Rightarrow> Inl e
                | Inr pred \<Rightarrow>
                    (case (case anomaly_decision_function model of
                             Some df \<Rightarrow>
                               (case df features_scaled of
                                  Inl e \<Rightarrow> Inl e
                                | Inr score \<Rightarrow> Inr (max 0 ((1 - score) / 2)))
                           | None \<Rightarrow> Inr (if pred = - 1 then 0.8 else 0.2)) of
                       Inl e \<Rightarrow> Inl e
                     | Inr a_score \<Rightarrow>
                         (case generate_anomaly_explanation features (pred = - 1) of
                            Inl e \<Rightarrow> Inl e
                          | Inr expl \<Rightarrow>
                              Inr \<lparr>is_anomaly = (pred = - 1), anomaly_score = a_score,
                                   explanation = expl\<rparr>)))
           | _ \<Rightarrow> Inl AttributeError))"

subsection \<open>explain_prediction\<close>

record explanation_result =
  feature_importance :: "string \<rightharpoonup> real"
  shap_values :: "real list"
  base_value :: real

definition importance_weights :: "real list" where
  "importance_weights = [0.1, 0.15, 0.2, 0.25, 0.25, 0.05]"

text \<open>
  The loop of \<open>_generate_simple_explanation\<close> over
  \<open>enumerate(zip(self.feature_names, importance_weights))\<close>; \<open>features[i]\<close> raises when
  the list is too short.
\<close>

fun simple_explanation_loop ::
  "(string \<times> real) list \<Rightarrow> nat \<Rightarrow> real list \<Rightarrow> (string \<rightharpoonup> real) \<Rightarrow> real list
     \<Rightarrow> error + (string \<rightharpoonup> real) \<times> real list" where
  "simple_explanation_loop [] i features fi sv = Inr (fi, sv)"
| "simple_explanation_loop ((feature, weight) # rest) i features fi sv =
     (if length features \<le> i then Inl IndexError
      else
        let normalized_value = min (features ! i / 10) 1;
            importance = normalized_value * weight
        in simple_explanation_loop rest (Suc i) features
             (fi(feature \<mapsto> importance)) (sv @ [importance]))"

definition generate_simple_explanation :: "MLPredictor \<Rightarrow> real list \<Rightarrow> error + explanation_result" where
  "generate_simple_explanation self features =
     (case simple_explanation_loop (zip (feature_names self) importance_weights) 0 features
             Map.empty [] of
        Inl e \<Rightarrow> Inl e
      | Inr (fi, sv) \<Rightarrow> Inr \<lparr>feature_importance = fi, shap_values = sv, base_value = 0.5\<rparr>)"

text \<open>\<open>dict(zip(keys, values))\<close>: a later pair with the same key wins.\<close>

definition dict_zip :: "string list \<Rightarrow> real list \<Rightarrow> (string \<rightharpoonup> real)" where
  "dict_zip ks vs = fold (\<lambda>(k, v) m. m(k \<mapsto> v)) (zip ks vs) Map.empty"

text \<open>The body of the \<open>try\<close> of \<open>explain_prediction\<close>.\<close>

definition explain_body :: "MLPredictor \<Rightarrow> real list \<Rightarrow> error + explanation_result" where
  "explain_body self features =
     (case map_of (models self) ''shap_explainer'' of
        Some (ExplainerModel (ShapExplainer shap expected_value)) \<Rightarrow>
          (case lift_artifact (shap features) of
             Inl e \<Rightarrow> Inl e
           | Inr out \<Rightarrow>
               (case (case out of
                        ShapList arrays \<Rightarrow>
                          if length arrays < 2 then Inl IndexError else Inr (arrays ! 1)
                      | ShapArray row \<Rightarrow> Inr row) of
                  Inl e \<Rightarrow> Inl e
                | Inr row \<Rightarrow>
                    Inr \<lparr>feature_importance = dict_zip (feature_names self) row,
                         shap_values = row, base_value = expected_value\<rparr>))
      | Some _ \<Rightarrow> Inl AttributeError
      | None \<Rightarrow> generate_simple_explanation self features)"

text \<open>The \<open>except\<close> clause logs the exception and returns the simple explanation.\<close>

definition explain_prediction :: "MLPredictor \<Rightarrow> real list \<Rightarrow> error + explanation_result" where
  "explain_prediction self features =
     (if \<not> models_loaded self then Inl (NotLoaded ''Models not loaded'')
      else case explain_body self features of
        Inl e \<Rightarrow> generate_simple_explanation self features
      | Inr r \<Rightarrow> Inr r)"

subsection \<open>get_model_info\<close>

record model_info =
  info_models_loaded :: bool
  available_models :: "string list"
  info_feature_names :: "string list"
  model_directory :: string

definition get_model_info :: "MLPredictor \<Rightarrow> model_info" where
  "get_model_info self =
     \<lparr>info_models_loaded = models_loaded self,
      available_models = map fst (models self),
      info_feature_names = feature_names self,
      model_directory = model_dir self\<rparr>"

subsection \<open>load_models\<close>

text \<open>
  What \<open>load_models\<close> reads from outside: whether the model directory exists, and for
  each file whether it exists (\<open>None\<close> when it does not) and what \<open>joblib.load\<close> does
  with it (\<open>Inl\<close> the message when it raises); and whether the import of sklearn at the
  start of \<open>_create_fallback_models\<close> succeeds.
\<close>

record environment =
  dir_exists :: bool
  feature_names_pkl :: "(string + string list) option"
  sla_predictor_pkl :: "(string + sla_model) option"
  anomaly_detector_pkl :: "(string + anomaly_model) option"
  shap_explainer_pkl :: "(string + shap_explainer) option"
  scaler_standard_pkl :: "(string + scaler) option"
  sklearn_importable :: bool

text \<open>
  \<open>_create_fallback_models\<close>: the import is the first statement of its \<open>try\<close>; when it
  raises, the \<open>except\<close> clause sets the flag to False. Nothing else in the body raises, and
  the method itself never does.
\<close>

definition create_fallback_models :: "environment \<Rightarrow> MLPredictor \<Rightarrow> error + MLPredictor" where
  "create_fallback_models env self =
     (if sklearn_importable env
      then Inr (self\<lparr>
             models := AList.update ''anomaly_detector'' (AnomalyModel FallbackAnomalyDetector)
                         (AList.update ''sla_predictor'' (SLAModel FallbackSLAPredictor)
                            (models self)),
             scalers := (scalers self)(''standard'' \<mapsto> FallbackScaler),
             feature_names := default_feature_names,
             models_loaded := True\<rparr>)
      else Inr (self\<lparr>models_loaded := False\<rparr>))"

text \<open>
  The steps of the \<open>try\<close> of \<open>load_models\<close>. A step that raises returns \<open>Inl\<close> with the
  exception and the object as it is at that point: what was assigned before stays.
\<close>

definition load_feature_names :: "environment \<Rightarrow> MLPredictor \<Rightarrow> error \<times> MLPredictor + MLPredictor" where
  "load_feature_names env self =
     (case feature_names_pkl env of
        None \<Rightarrow> Inr (self\<lparr>feature_names := default_feature_names\<rparr>)
      | Some (Inl msg) \<Rightarrow> Inl (ArtifactError msg, self)
      | Some (Inr names) \<Rightarrow> Inr (self\<lparr>feature_names := names\<rparr>))"

definition model_files :: "environment \<Rightarrow> (string \<times> (string + artifact) option) list" where
  "model_files env =
     [(''sla_predictor'', map_option (map_sum id SLAModel) (sla_predictor_pkl env)),
      (''anomaly_detector'', map_option (map_sum id AnomalyModel) (anomaly_detector_pkl env)),
      (''shap_explainer'', map_option (map_sum id ExplainerModel) (shap_explainer_pkl env))]"

fun load_model_files ::
  "(string \<times> (string + artifact) option) list \<Rightarrow> MLPredictor \<Rightarrow> error \<times> MLPredictor + MLPredictor" where
  "load_model_files [] self = Inr self"
| "load_model_files ((model_name, file) # rest) self =
     (case file of
        None \<Rightarrow> load_model_files rest self
      | Some (Inl msg) \<Rightarrow> Inl (ArtifactError msg, self)
      | Some (Inr a) \<Rightarrow>
          load_model_files rest (self\<lparr>models := AList.update model_name a (models self)\<rparr>))"

definition load_scalers :: "environment \<Rightarrow> MLPredictor \<Rightarrow> error \<times> MLPredictor + MLPredictor" where
  "load_scalers env self =
     (case scaler_standard_pkl env of
        None \<Rightarrow> Inr self
      | Some (Inl msg) \<Rightarrow> Inl (ArtifactError msg, self)
      | Some (Inr s) \<Rightarrow> Inr (self\<lparr>scalers := (scalers self)(''standard'' \<mapsto> s)\<rparr>))"

definition load_finish :: "environment \<Rightarrow> MLPredictor \<Rightarrow> error \<times> MLPredictor + MLPredictor" where
  "load_finish env self =
     (if models self = []
      then (case create_fallback_models env self of
              Inl e \<Rightarrow> Inl (e, self)
            | Inr s \<Rightarrow> Inr s)
      else Inr (self\<lparr>models_loaded := True\<rparr>))"

definition load_body :: "environment \<Rightarrow> MLPredictor \<Rightarrow> error \<times> MLPredictor + MLPredictor" where
  "load_body env self =
     (if \<not> dir_exists env
      then (case create_fallback_models env self of
              Inl e \<Rightarrow> Inl (e, self)
            | Inr s \<Rightarrow> Inr s)
      else case load_feature_names env self of
        Inl x \<Rightarrow> Inl x
      | Inr s1 \<Rightarrow>
          (case load_model_files (model_files env) s1 of
             Inl x \<Rightarrow> Inl x
           | Inr s2 \<Rightarrow>
               (case load_scalers env s2 of
                  Inl x \<Rightarrow> Inl x
                | Inr s3 \<Rightarrow> load_finish env s3)))"

text \<open>
  \<open>load_models\<close>: the \<open>except\<close> clause logs the exception and creates the fallback
  models on the object as the body left it.
\<close>

definition load_models :: "environment \<Rightarrow> MLPredictor \<Rightarrow> error + MLPredictor" where
  "load_models env self =
     (case load_body env self of
        Inl (e, s) \<Rightarrow> create_fallback_models env s
      | Inr s \<Rightarrow> Inr s)"

subsection \<open>Concrete directories and predictors\<close>

text \<open>The model directory does not exist; sklearn can be imported.\<close>

definition no_artifacts :: environment where
  "no_artifacts =
     \<lparr>dir_exists = False, feature_names_pkl = None, sla_predictor_pkl = None,
      anomaly_detector_pkl = None, shap_explainer_pkl = None, scaler_standard_pkl = None,
      sklearn_importable = True\<rparr>"

text \<open>The predictor after a load that ended in the fallback models.\<close>

definition fallback_bundle :: "string \<Rightarrow> MLPredictor" where
  "fallback_bundle dir =
     \<lparr>model_dir = dir,
      models = [(''sla_predictor'', SLAModel FallbackSLAPredictor),
                (''anomaly_detector'', AnomalyModel FallbackAnomalyDetector)],
      scalers = [''standard'' \<mapsto> FallbackScaler],
      feature_names = default_feature_names,
      models_loaded = True\<rparr>"

text \<open>
  A directory that holds nothing but a readable anomaly detector, here one that calls every
  row normal, and the predictor a fresh object becomes by loading it.
\<close>

definition constant_detector :: anomaly_model where
  "constant_detector = TrainedAnomalyDetector (\<lambda>row. Inr 1) (Some (\<lambda>row. Inr 0))"

definition only_anomaly_detector :: environment where
  "only_anomaly_detector =
     \<lparr>dir_exists = True, feature_names_pkl = None, sla_predictor_pkl = None,
      anomaly_detector_pkl = Some (Inr constant_detector), shap_explainer_pkl = None,
      scaler_standard_pkl = None, sklearn_importable = True\<rparr>"

definition detector_only_bundle :: "string \<Rightarrow> MLPredictor" where
  "detector_only_bundle dir =
     \<lparr>model_dir = dir,
      models = [(''anomaly_detector'', AnomalyModel constant_detector)],
      scalers = Map.empty,
      feature_names = default_feature_names,
      models_loaded = True\<rparr>"

text \<open>
  A directory that holds nothing but a readable SHAP explainer whose \<open>shap_values\<close>
  raises, and the predictor a fresh object becomes by loading it.
\<close>

definition failing_explainer :: shap_explainer where
  "failing_explainer = ShapExplainer (\<lambda>row. Inl ''shap failure'') 0"

definition only_failing_explainer :: environment where
  "only_failing_explainer =
     \<lparr>dir_exists = True, feature_names_pkl = None, sla_predictor_pkl = None,
      anomaly_detector_pkl = None, shap_explainer_pkl = Some (Inr failing_explainer),
      scaler_standard_pkl = None, sklearn_importable = True\<rparr>"

definition failing_explainer_bundle :: "string \<Rightarrow> MLPredictor" where
  "failing_explainer_bundle dir =
     \<lparr>model_dir = dir,
      models = [(''shap_explainer'', ExplainerModel failing_explainer)],
      scalers = Map.empty,
      feature_names = default_feature_names,
      models_loaded = True\<rparr>"

text \<open>A predictor whose stored SLA model raises in \<open>predict\<close>.\<close>

definition failing_predictor :: sla_model where
  "failing_predictor = TrainedSLAPredictor (\<lambda>row. Inl ''predict failure'') None"

definition failing_predictor_bundle :: "string \<Rightarrow> MLPredictor" where
  "failing_predictor_bundle dir =
     \<lparr>model_dir = dir,
      models = [(''sla_predictor'', SLAModel failing_predictor)],
      scalers = Map.empty,
      feature_names = default_feature_names,
      models_loaded = True\<rparr>"

text \<open>Whether \<open>joblib.load\<close> raises on a file that exists.\<close>

definition raises :: "(string + 'a) option \<Rightarrow> bool" where
  "raises file = (case file of Some (Inl msg) \<Rightarrow> True | _ \<Rightarrow> False)"

text \<open>
  The situations in which the trained artifacts cannot be used: the model directory is
  missing, a file that exists cannot be loaded, or none of the three model files exists.
\<close>

definition artifacts_unavailable :: "environment \<Rightarrow> bool" where
  "artifacts_unavailable env \<longleftrightarrow>
     \<not> dir_exists env
     \<or> raises (feature_names_pkl env) \<or> raises (sla_predictor_pkl env)
     \<or> raises (anomaly_detector_pkl env) \<or> raises (shap_explainer_pkl env)
     \<or> raises (scaler_standard_pkl env)
     \<or> (sla_predictor_pkl env = None \<and> anomaly_detector_pkl env = None
          \<and> shap_explainer_pkl env = None)"

text \<open>No model directory, and sklearn cannot be imported.\<close>

definition no_sklearn :: environment where
  "no_sklearn = no_artifacts\<lparr>sklearn_importable := False\<rparr>"

text \<open>A directory that holds nothing but a readable list of two feature names.\<close>

definition only_feature_names :: environment where
  "only_feature_names =
     \<lparr>dir_exists = True, feature_names_pkl = Some (Inr [''latency'', ''jitter'']),
      sla_predictor_pkl = None, anomaly_detector_pkl = None, shap_explainer_pkl = None,
      scaler_standard_pkl = None, sklearn_importable = True\<rparr>"

text \<open>
  A directory that holds a readable list of two feature names and a readable SLA predictor,
  here one that always answers 0, and the predictor a fresh object becomes by loading it.
\<close>

definition constant_predictor :: sla_model where
  "constant_predictor = TrainedSLAPredictor (\<lambda>row. Inr 0) None"

definition foreign_names_directory :: environment where
  "foreign_names_directory =
     \<lparr>dir_exists = True, feature_names_pkl = Some (Inr [''latency'', ''jitter'']),
      sla_predictor_pkl = Some (Inr constant_predictor), anomaly_detector_pkl = None,
      shap_explainer_pkl = None, scaler_standard_pkl = None, sklearn_importable = True\<rparr>"

definition foreign_names_bundle :: "string \<Rightarrow> MLPredictor" where
  "foreign_names_bundle dir =
     \<lparr>model_dir = dir,
      models = [(''sla_predictor'', SLAModel constant_predictor)],
      scalers = Map.empty,
      feature_names = [''latency'', ''jitter''],
      models_loaded = True\<rparr>"

subsection \<open>Auxiliary notions for reasoning about load_models\<close>

text \<open>
  What the loop over the model files does, read off the list of files: the models it stores
  before the first file that cannot be loaded, and whether there is such a file.
\<close>

fun loaded_prefix :: "(string \<times> (string + artifact) option) list \<Rightarrow> (string \<times> artifact) list" where
  "loaded_prefix [] = []"
| "loaded_prefix ((model_name, None) # rest) = loaded_prefix rest"
| "loaded_prefix ((model_name, Some (Inl msg)) # rest) = []"
| "loaded_prefix ((model_name, Some (Inr a)) # rest) = (model_name, a) # loaded_prefix rest"

fun files_raise :: "(string \<times> (string + artifact) option) list \<Rightarrow> bool" where
  "files_raise [] = False"
| "files_raise ((model_name, None) # rest) = files_raise rest"
| "files_raise ((model_name, Some (Inl msg)) # rest) = True"
| "files_raise ((model_name, Some (Inr a)) # rest) = files_raise rest"

text \<open>A sequence of dict assignments.\<close>

fun update_all :: "(string \<times> artifact) list \<Rightarrow> (string \<times> artifact) list \<Rightarrow> (string \<times> artifact) list" where
  "update_all [] al = al"
| "update_all ((k, v) # ps) al = update_all ps (AList.update k v al)"

definition fallback_models :: "(string \<times> artifact) list" where
  "fallback_models =
     [(''sla_predictor'', SLAModel FallbackSLAPredictor),
      (''anomaly_detector'', AnomalyModel FallbackAnomalyDetector)]"

text \<open>The feature names and the scalers after the steps that assign them.\<close>

definition names_loaded :: "environment \<Rightarrow> string list" where
  "names_loaded env =
     (case feature_names_pkl env of Some (Inr names) \<Rightarrow> names | _ \<Rightarrow> default_feature_names)"

definition scalers_loaded :: "environment \<Rightarrow> (string \<rightharpoonup> scaler) \<Rightarrow> (string \<rightharpoonup> scaler)" where
  "scalers_loaded env sc =
     (case scaler_standard_pkl env of Some (Inr s) \<Rightarrow> sc(''standard'' \<mapsto> s) | _ \<Rightarrow> sc)"

text \<open>The object after the feature names and the model files have been read.\<close>

definition after_models :: "environment \<Rightarrow> MLPredictor \<Rightarrow> MLPredictor" where
  "after_models env self =
     self\<lparr>feature_names := names_loaded env,
          models := update_all (loaded_prefix (model_files env)) (models self)\<rparr>"

section \<open>Properties\<close>

subsection \<open>Shared facts\<close>

lemma load_no_artifacts: "load_models no_artifacts (init dir) = Inr (fallback_bundle dir)"
  by (simp add: load_models_def load_body_def create_fallback_models_def no_artifacts_def
      init_def fallback_bundle_def)

lemma valid_features_nth:
  assumes "valid_features x"
  shows "length x = 6" "0 \<le> x ! 0" "0 \<le> x ! 1" "0 \<le> x ! 2" "0 \<le> x ! 3" "0 \<le> x ! 4" "0 \<le> x ! 5"
    "x ! 2 \<le> 100" "x ! 3 \<le> 100"
  using assms by (auto simp: valid_features_def list_all_length)

lemma mean3_bounds:
  fixes a b c :: real
  shows "0 \<le> a \<Longrightarrow> 0 \<le> b \<Longrightarrow> 0 \<le> c \<Longrightarrow> 0 \<le> (a + b + c) / 3"
    and "a \<le> u \<Longrightarrow> b \<le> u \<Longrightarrow> c \<le> u \<Longrightarrow> (a + b + c) / 3 \<le> u"
  by simp_all

subsection \<open>The fallback risk\<close>

lemma fallback_risk_bounds:
  fixes l p t :: real
  assumes "0 \<le> l" "0 \<le> p" "0 \<le> t"
  shows "0 \<le> (min (l / 20) 1 + min (p / 10) 1 + max 0 ((2 - t) / 2)) / 3"
    and "(min (l / 20) 1 + min (p / 10) 1 + max 0 ((2 - t) / 2)) / 3 \<le> 1"
proof -
  have a: "0 \<le> min (l / 20) 1" "min (l / 20) 1 \<le> 1" using assms by simp_all
  have b: "0 \<le> min (p / 10) 1" "min (p / 10) 1 \<le> 1" using assms by simp_all
  have c: "0 \<le> max 0 ((2 - t) / 2)" "max 0 ((2 - t) / 2) \<le> 1" using assms by simp_all
  show "0 \<le> (min (l / 20) 1 + min (p / 10) 1 + max 0 ((2 - t) / 2)) / 3"
    by (rule mean3_bounds(1)[OF a(1) b(1) c(1)])
  show "(min (l / 20) 1 + min (p / 10) 1 + max 0 ((2 - t) / 2)) / 3 \<le> 1"
    by (rule mean3_bounds(2)[OF a(2) b(2) c(2)])
qed

lemma fallback_risk_low:
  fixes l p t :: real
  assumes "l \<le> 10" "p \<le> 5" "1 \<le> t"
  shows "(min (l / 20) 1 + min (p / 10) 1 + max 0 ((2 - t) / 2)) / 3 \<le> 1 / 2"
proof -
  have a: "min (l / 20) 1 \<le> 1 / 2" using assms by (simp add: min_le_iff_disj)
  have b: "min (p / 10) 1 \<le> 1 / 2" using assms by (simp add: min_le_iff_disj)
  have c: "max 0 ((2 - t) / 2) \<le> 1 / 2" using assms by (simp add: max_def)
  show ?thesis by (rule mean3_bounds(2)[OF a b c])
qed

lemma fallback_predict_eval:
  assumes "models_loaded self"
    "map_of (models self) ''sla_predictor'' = Some (SLAModel FallbackSLAPredictor)"
    "length x = 6"
  shows "predict_sla_violation self x rnd =
     Inr \<lparr>prediction = (if x ! 4 > 10 \<or> x ! 3 > 5 \<or> x ! 1 < 1 then 1 else 0),
          probability = (min (x ! 4 / 20) 1 + min (x ! 3 / 10) 1 + max 0 ((2 - x ! 1) / 2)) / 3,
          confidence = 0.85 + rnd * 0.1, model_version = ''v1.0''\<rparr>"
  using assms
  by (simp add: predict_sla_violation_def fallback_sla_predict_def
      fallback_sla_predict_proba_def Let_def)

subsection \<open>C1: range of the prediction and its relation to the probability\<close>

text \<open>
  C1, as it holds on the code. With the fallback predictor in place, every valid feature
  vector gets a result whose probability lies in [0, 1] and whose label is 0 or 1. The
  label is 1 exactly when latency exceeds 10, packet loss exceeds 5 or throughput is below
  1; a probability above 0.5 forces the label 1, but the label can be 1 with a probability
  below 0.5, since the label and the probability come from two separate rules.
\<close>

theorem predict_sla_violation_fallback_range:
  assumes "valid_features x" "models_loaded self"
    "map_of (models self) ''sla_predictor'' = Some (SLAModel FallbackSLAPredictor)"
  shows "\<exists>r. predict_sla_violation self x rnd = Inr r
     \<and> 0 \<le> probability r \<and> probability r \<le> 1
     \<and> (prediction r = 0 \<or> prediction r = 1)
     \<and> (prediction r = 1 \<longleftrightarrow> x ! 4 > 10 \<or> x ! 3 > 5 \<or> x ! 1 < 1)
     \<and> (probability r > 0.5 \<longrightarrow> prediction r = 1)"
proof -
  note v = valid_features_nth[OF assms(1)]
  let ?p = "(min (x ! 4 / 20) 1 + min (x ! 3 / 10) 1 + max 0 ((2 - x ! 1) / 2)) / 3"
  have lo: "0 \<le> ?p" and hi: "?p \<le> 1"
    using fallback_risk_bounds[of "x ! 4" "x ! 3" "x ! 1"] v by simp_all
  have low: "\<not> (x ! 4 > 10 \<or> x ! 3 > 5 \<or> x ! 1 < 1) \<Longrightarrow> ?p \<le> 1 / 2"
    using fallback_risk_low[of "x ! 4" "x ! 3" "x ! 1"] by simp
  show ?thesis
    unfolding fallback_predict_eval[OF assms(2,3) v(1)]
    using lo hi low by auto
qed

theorem predict_sla_violation_fallback_range_witness:
  "valid_features [100, 20, 10, 1, 5, 0.5] \<and> models_loaded (fallback_bundle ''models'')
   \<and> map_of (models (fallback_bundle ''models'')) ''sla_predictor''
       = Some (SLAModel FallbackSLAPredictor)
   \<and> (\<exists>r. predict_sla_violation (fallback_bundle ''models'') [100, 20, 10, 1, 5, 0.5] 0 = Inr r
        \<and> 0 \<le> probability r \<and> probability r \<le> 1
        \<and> (prediction r = 0 \<or> prediction r = 1)
        \<and> (probability r > 0.5 \<longrightarrow> prediction r = 1))"
proof -
  have v: "valid_features [100, 20, 10, 1, 5, 0.5]"
    by (simp add: valid_features_def)
  have l: "models_loaded (fallback_bundle ''models'')"
    by (simp add: fallback_bundle_def)
  have m: "map_of (models (fallback_bundle ''models'')) ''sla_predictor''
             = Some (SLAModel FallbackSLAPredictor)"
    by (simp add: fallback_bundle_def)
  show ?thesis
    using v l m predict_sla_violation_fallback_range[OF v l m, of 0] by blast
qed

text \<open>
  The claim as written fails: latency 11 alone gives the label 1 with probability 11/60.
\<close>

theorem predict_sla_violation_label_not_threshold:
  "valid_features [100, 2, 10, 0, 11, 0]
   \<and> predict_sla_violation (fallback_bundle ''models'') [100, 2, 10, 0, 11, 0] 0 =
       Inr \<lparr>prediction = 1, probability = 11 / 60, confidence = 0.85, model_version = ''v1.0''\<rparr>
   \<and> (11 / 60 :: real) < 0.5"
  by (simp add: valid_features_def predict_sla_violation_def fallback_bundle_def
      fallback_sla_predict_def fallback_sla_predict_proba_def Let_def)

subsection \<open>C2: the anomaly score\<close>

lemma length6_cases:
  assumes "length x = 6"
  obtains a b c d e f where "x = [a, b, c, d, e, f]"
proof -
  from assms obtain a x1 where 1: "x = a # x1" "length x1 = 5" by (cases x) auto
  then obtain b x2 where 2: "x1 = b # x2" "length x2 = 4" by (cases x1) auto
  then obtain c x3 where 3: "x2 = c # x3" "length x3 = 3" by (cases x2) auto
  then obtain d x4 where 4: "x3 = d # x4" "length x4 = 2" by (cases x3) auto
  then obtain e x5 where 5: "x4 = e # x5" "length x5 = 1" by (cases x4) auto
  then obtain f where 6: "x5 = [f]" by (cases x5) auto
  show ?thesis using that 1 2 3 4 5 6 by simp
qed

lemma generate_anomaly_explanation_total:
  assumes "length x = 6"
  shows "\<exists>expl. generate_anomaly_explanation x b = Inr expl"
proof -
  obtain a1 a2 a3 a4 a5 a6 where "x = [a1, a2, a3, a4, a5, a6]"
    using assms by (rule length6_cases)
  then show ?thesis by (simp add: generate_anomaly_explanation_def Let_def)
qed





subsection \<open>C3: the anomaly flag and the anomaly score under the fallback rules\<close>

lemma fallback_detect_eval:
  assumes "models_loaded self"
    and "map_of (models self) ''anomaly_detector'' = Some (AnomalyModel FallbackAnomalyDetector)"
    and "scalers self ''standard'' = Some FallbackScaler"
    and "length x = 6"
  shows "\<exists>expl. detect_anomaly self x =
     Inr \<lparr>is_anomaly = (x ! 4 > 20 \<or> x ! 3 > 15 \<or> x ! 5 > 5),
          anomaly_score =
            max 0 ((1 - max (- 1) (min 1 (1 - (x ! 4 / 30 + x ! 3 / 20 + x ! 5 / 10) / 3))) / 2),
          explanation = expl\<rparr>"
proof -
  obtain expl where e: "generate_anomaly_explanation x (x ! 4 > 20 \<or> x ! 3 > 15 \<or> x ! 5 > 5) = Inr expl"
    using generate_anomaly_explanation_total[OF assms(4)] by blast
  show ?thesis
    using assms e
    by (auto simp: detect_anomaly_def scale_features_def fallback_anomaly_predict_def
        fallback_decision_function_def Let_def)
qed

lemma fallback_score_normal:
  fixes l p j :: real
  assumes "0 \<le> l" "0 \<le> p" "0 \<le> j" "l \<le> 20" "p \<le> 15" "j \<le> 5"
  shows "max 0 ((1 - max (- 1) (min 1 (1 - (l / 30 + p / 20 + j / 10) / 3))) / 2) \<le> 23 / 72"
proof -
  define s where "s = (l / 30 + p / 20 + j / 10) / 3"
  have s: "0 \<le> s" "s \<le> 23 / 36" unfolding s_def using assms by simp_all
  have "max (- 1) (min 1 (1 - s)) = 1 - s" using s by (simp add: min_def max_def)
  then show ?thesis unfolding s_def[symmetric] using s by (simp add: max_def)
qed

lemma fallback_score_anomalous:
  fixes l p j :: real
  assumes "0 \<le> l" "0 \<le> p" "0 \<le> j" "l > 20 \<or> p > 15 \<or> j > 5"
  shows "1 / 12 < max 0 ((1 - max (- 1) (min 1 (1 - (l / 30 + p / 20 + j / 10) / 3))) / 2)"
proof -
  define s where "s = (l / 30 + p / 20 + j / 10) / 3"
  have s: "1 / 6 < s" unfolding s_def using assms by auto
  have "max (- 1) (min 1 (1 - s)) \<le> 1 - s \<or> max (- 1) (min 1 (1 - s)) = - 1"
    by (simp add: min_def max_def)
  then have "max (- 1) (min 1 (1 - s)) < 5 / 6" using s by linarith
  then show ?thesis unfolding s_def[symmetric] by (simp add: max_def)
qed

text \<open>
  C3, as it holds on the code. With the fallback detector and the fallback scaler in place,
  every valid feature vector gets a result; it is flagged exactly when latency exceeds 20,
  packet loss exceeds 15 or jitter exceeds 5; a flagged vector has a score above 1/12 and an
  unflagged one a score of at most 23/72. So a score above 23/72 implies the flag and a
  score of at most 1/12 excludes it; between the two bounds both occur.
\<close>

theorem detect_anomaly_fallback_flag_and_score:
  assumes "valid_features x" "models_loaded self"
    and "map_of (models self) ''anomaly_detector'' = Some (AnomalyModel FallbackAnomalyDetector)"
    and "scalers self ''standard'' = Some FallbackScaler"
  shows "\<exists>r. detect_anomaly self x = Inr r
     \<and> (is_anomaly r \<longleftrightarrow> x ! 4 > 20 \<or> x ! 3 > 15 \<or> x ! 5 > 5)
     \<and> (is_anomaly r \<longrightarrow> 1 / 12 < anomaly_score r)
     \<and> (\<not> is_anomaly r \<longrightarrow> anomaly_score r \<le> 23 / 72)"
proof -
  note v = valid_features_nth[OF assms(1)]
  obtain expl where d: "detect_anomaly self x =
     Inr \<lparr>is_anomaly = (x ! 4 > 20 \<or> x ! 3 > 15 \<or> x ! 5 > 5),
          anomaly_score =
            max 0 ((1 - max (- 1) (min 1 (1 - (x ! 4 / 30 + x ! 3 / 20 + x ! 5 / 10) / 3))) / 2),
          explanation = expl\<rparr>"
    using fallback_detect_eval[OF assms(2-4) v(1)] by blast
  have hi: "x ! 4 > 20 \<or> x ! 3 > 15 \<or> x ! 5 > 5 \<Longrightarrow>
      1 / 12 < max 0 ((1 - max (- 1) (min 1 (1 - (x ! 4 / 30 + x ! 3 / 20 + x ! 5 / 10) / 3))) / 2)"
    using fallback_score_anomalous[of "x ! 4" "x ! 3" "x ! 5"] v by simp
  have lo: "\<not> (x ! 4 > 20 \<or> x ! 3 > 15 \<or> x ! 5 > 5) \<Longrightarrow>
      max 0 ((1 - max (- 1) (min 1 (1 - (x ! 4 / 30 + x ! 3 / 20 + x ! 5 / 10) / 3))) / 2) \<le> 23 / 72"
    using fallback_score_normal[of "x ! 4" "x ! 3" "x ! 5"] v by simp
  show ?thesis unfolding d using hi lo by auto
qed

theorem detect_anomaly_fallback_flag_and_score_witness:
  "valid_features [100, 20, 10, 1, 5, 0.5] \<and> models_loaded (fallback_bundle ''models'')
   \<and> map_of (models (fallback_bundle ''models'')) ''anomaly_detector''
       = Some (AnomalyModel FallbackAnomalyDetector)
   \<and> scalers (fallback_bundle ''models'') ''standard'' = Some FallbackScaler
   \<and> (\<exists>r. detect_anomaly (fallback_bundle ''models'') [100, 20, 10, 1, 5, 0.5] = Inr r
        \<and> \<not> is_anomaly r \<and> anomaly_score r \<le> 23 / 72)"
proof -
  let ?x = "[100, 20, 10, 1, 5, 0.5] :: real list"
  let ?s = "fallback_bundle ''models''"
  have v: "valid_features ?x" by (simp add: valid_features_def)
  have l: "models_loaded ?s" by (simp add: fallback_bundle_def)
  have m: "map_of (models ?s) ''anomaly_detector'' = Some (AnomalyModel FallbackAnomalyDetector)"
    by (simp add: fallback_bundle_def)
  have sc: "scalers ?s ''standard'' = Some FallbackScaler"
    by (simp add: fallback_bundle_def)
  obtain r where r: "detect_anomaly ?s ?x = Inr r"
    "is_anomaly r \<longleftrightarrow> ?x ! 4 > 20 \<or> ?x ! 3 > 15 \<or> ?x ! 5 > 5"
    "\<not> is_anomaly r \<longrightarrow> anomaly_score r \<le> 23 / 72"
    using detect_anomaly_fallback_flag_and_score[OF v l m sc] by blast
  from r(2) have "\<not> is_anomaly r" by simp
  with r(1,3) v l m sc show ?thesis by blast
qed

text \<open>
  The claim as written fails: jitter 6 alone is flagged with score 1/10, while latency 20,
  packet loss 15 and jitter 5 together are not flagged and score 23/72.
\<close>

theorem detect_anomaly_flag_not_monotone:
  "valid_features [100, 50, 10, 0, 0, 6] \<and> valid_features [100, 50, 10, 15, 20, 5]
   \<and> detect_anomaly (fallback_bundle ''models'') [100, 50, 10, 0, 0, 6] =
       Inr \<lparr>is_anomaly = True, anomaly_score = 1 / 10, explanation = Reasons [HighJitter 6]\<rparr>
   \<and> detect_anomaly (fallback_bundle ''models'') [100, 50, 10, 15, 20, 5] =
       Inr \<lparr>is_anomaly = False, anomaly_score = 23 / 72, explanation = WithinNormalParameters\<rparr>
   \<and> (1 / 10 :: real) < 23 / 72"
  by (simp add: valid_features_def detect_anomaly_def scale_features_def fallback_bundle_def
      fallback_anomaly_predict_def fallback_decision_function_def
      generate_anomaly_explanation_def Let_def)

subsection \<open>C7: the reported confidence\<close>




subsection \<open>C10: label and probability do not depend on the random draw\<close>

text \<open>
  C10. For the same predictor object and the same feature vector, two calls of
  \<open>predict_sla_violation\<close> with different random draws give the same label and the same
  probability, or raise the same exception; only the confidence follows the draw.
\<close>

theorem predict_sla_violation_deterministic:
  "map_sum id prediction (predict_sla_violation self x rnd1) =
     map_sum id prediction (predict_sla_violation self x rnd2)
   \<and> map_sum id probability (predict_sla_violation self x rnd1) =
     map_sum id probability (predict_sla_violation self x rnd2)"
  by (auto simp: predict_sla_violation_def split: option.splits artifact.splits sum.splits)

theorem predict_sla_violation_deterministic_witness:
  "map_sum id prediction
      (predict_sla_violation (fallback_bundle ''models'') [50, 5, 90, 8, 25, 6] 0) = Inr 1
   \<and> map_sum id prediction
      (predict_sla_violation (fallback_bundle ''models'') [50, 5, 90, 8, 25, 6] (1 / 2)) = Inr 1
   \<and> map_sum id probability
      (predict_sla_violation (fallback_bundle ''models'') [50, 5, 90, 8, 25, 6] 0) = Inr (3 / 5)
   \<and> map_sum id probability
      (predict_sla_violation (fallback_bundle ''models'') [50, 5, 90, 8, 25, 6] (1 / 2))
        = Inr (3 / 5)"
proof -
  have p: "predict_sla_violation (fallback_bundle ''models'') [50, 5, 90, 8, 25, 6] 0 =
       Inr \<lparr>prediction = 1, probability = 3 / 5, confidence = 0.85, model_version = ''v1.0''\<rparr>"
    by (simp add: predict_sla_violation_def fallback_bundle_def
      fallback_sla_predict_def fallback_sla_predict_proba_def Let_def)
  show ?thesis
    using predict_sla_violation_deterministic
            [of "fallback_bundle ''models''" "[50, 5, 90, 8, 25, 6]" 0 "1 / 2"] p
    by simp
qed

subsection \<open>C4: the not-loaded error of the serving methods\<close>

lemma lift_artifact_not_NotLoaded [simp]: "lift_artifact r \<noteq> Inl (NotLoaded msg)"
  by (cases r) (simp_all add: lift_artifact_def)

lemma sla_predict_not_NotLoaded: "sla_predict m x \<noteq> Inl (NotLoaded msg)"
  by (cases m) (simp_all add: fallback_sla_predict_def)

lemma sla_predict_proba_not_NotLoaded:
  "sla_predict_proba m = Some pp \<Longrightarrow> pp x \<noteq> Inl (NotLoaded msg)"
  by (cases m) (auto simp: fallback_sla_predict_proba_def Let_def split: option.splits)

lemma anomaly_predict_not_NotLoaded: "anomaly_predict m x \<noteq> Inl (NotLoaded msg)"
  by (cases m) (simp_all add: fallback_anomaly_predict_def)

lemma anomaly_decision_not_NotLoaded:
  "anomaly_decision_function m = Some df \<Longrightarrow> df x \<noteq> Inl (NotLoaded msg)"
  by (cases m) (auto simp: fallback_decision_function_def Let_def split: option.splits)

lemma scale_features_not_NotLoaded: "scale_features self x \<noteq> Inl (NotLoaded msg)"
proof (cases "scalers self ''standard''")
  case None
  then show ?thesis by (simp add: scale_features_def)
next
  case (Some sc)
  then show ?thesis by (cases sc) (simp_all add: scale_features_def)
qed

lemma generate_anomaly_explanation_not_NotLoaded:
  "generate_anomaly_explanation x b \<noteq> Inl (NotLoaded msg)"
  by (auto simp: generate_anomaly_explanation_def Let_def split: list.splits)

lemma simple_explanation_loop_not_NotLoaded:
  "simple_explanation_loop zs i x fi sv \<noteq> Inl (NotLoaded msg)"
proof (induction zs arbitrary: i fi sv)
  case Nil
  show ?case by simp
next
  case (Cons z zs)
  obtain feature weight where z: "z = (feature, weight)" by (cases z)
  show ?case unfolding z using Cons.IH by (simp add: Let_def)
qed

lemma generate_simple_explanation_not_NotLoaded:
  "generate_simple_explanation self x \<noteq> Inl (NotLoaded msg)"
  using simple_explanation_loop_not_NotLoaded[of "zip (feature_names self) importance_weights" 0 x Map.empty "[]" msg]
  by (auto simp: generate_simple_explanation_def split: sum.splits prod.splits)

lemma predict_sla_violation_guard:
  "(\<exists>msg. predict_sla_violation self x rnd = Inl (NotLoaded msg)) \<longleftrightarrow>
     \<not> models_loaded self \<or> map_of (models self) ''sla_predictor'' = None"
  using sla_predict_not_NotLoaded sla_predict_proba_not_NotLoaded
  by (auto simp: predict_sla_violation_def split: option.splits artifact.splits sum.splits)

lemma detect_anomaly_guard:
  "(\<exists>msg. detect_anomaly self x = Inl (NotLoaded msg)) \<longleftrightarrow>
     \<not> models_loaded self \<or> map_of (models self) ''anomaly_detector'' = None"
  using scale_features_not_NotLoaded anomaly_predict_not_NotLoaded anomaly_decision_not_NotLoaded
    generate_anomaly_explanation_not_NotLoaded
  by (auto simp: detect_anomaly_def split: option.splits artifact.splits sum.splits)

lemma explain_prediction_guard:
  "(\<exists>msg. explain_prediction self x = Inl (NotLoaded msg)) \<longleftrightarrow> \<not> models_loaded self"
  using generate_simple_explanation_not_NotLoaded
  by (auto simp: explain_prediction_def split: sum.splits)

lemma create_fallback_models_installed:
  assumes "sklearn_importable env"
  shows "\<exists>s. create_fallback_models env self = Inr s \<and> models_loaded s
     \<and> map_of (models s) ''sla_predictor'' = Some (SLAModel FallbackSLAPredictor)
     \<and> map_of (models s) ''anomaly_detector'' = Some (AnomalyModel FallbackAnomalyDetector)
     \<and> scalers s ''standard'' = Some FallbackScaler
     \<and> feature_names s = default_feature_names"
  using assms by (simp add: create_fallback_models_def update_conv')

text \<open>
  C4, as it holds on the code. \<open>predict_sla_violation\<close> raises its not-loaded error (a
  ValueError) exactly when the loaded flag is False or no SLA predictor is stored;
  \<open>detect_anomaly\<close> exactly when the flag is False or no anomaly detector is stored;
  \<open>explain_prediction\<close> exactly when the flag is False. Once the fallback models have been
  created, none of the three raises it.
\<close>

theorem serving_methods_not_loaded_guard:
  "((\<exists>msg. predict_sla_violation self x rnd = Inl (NotLoaded msg)) \<longleftrightarrow>
       \<not> models_loaded self \<or> map_of (models self) ''sla_predictor'' = None)
   \<and> ((\<exists>msg. detect_anomaly self x = Inl (NotLoaded msg)) \<longleftrightarrow>
       \<not> models_loaded self \<or> map_of (models self) ''anomaly_detector'' = None)
   \<and> ((\<exists>msg. explain_prediction self x = Inl (NotLoaded msg)) \<longleftrightarrow> \<not> models_loaded self)
   \<and> (sklearn_importable env \<longrightarrow>
        (\<exists>s. create_fallback_models env self = Inr s
           \<and> (\<forall>msg. predict_sla_violation s x rnd \<noteq> Inl (NotLoaded msg))
           \<and> (\<forall>msg. detect_anomaly s x \<noteq> Inl (NotLoaded msg))
           \<and> (\<forall>msg. explain_prediction s x \<noteq> Inl (NotLoaded msg))))"
proof -
  have "\<exists>s. create_fallback_models env self = Inr s
           \<and> (\<forall>msg. predict_sla_violation s x rnd \<noteq> Inl (NotLoaded msg))
           \<and> (\<forall>msg. detect_anomaly s x \<noteq> Inl (NotLoaded msg))
           \<and> (\<forall>msg. explain_prediction s x \<noteq> Inl (NotLoaded msg))"
    if sk: "sklearn_importable env"
  proof -
    obtain s where s: "create_fallback_models env self = Inr s" "models_loaded s"
      "map_of (models s) ''sla_predictor'' = Some (SLAModel FallbackSLAPredictor)"
      "map_of (models s) ''anomaly_detector'' = Some (AnomalyModel FallbackAnomalyDetector)"
      using create_fallback_models_installed[OF sk] by blast
    have "\<forall>msg. predict_sla_violation s x rnd \<noteq> Inl (NotLoaded msg)"
      using predict_sla_violation_guard[of s x rnd] s(2,3) by simp
    moreover have "\<forall>msg. detect_anomaly s x \<noteq> Inl (NotLoaded msg)"
      using detect_anomaly_guard[of s x] s(2,4) by simp
    moreover have "\<forall>msg. explain_prediction s x \<noteq> Inl (NotLoaded msg)"
      using explain_prediction_guard[of s x] s(2) by simp
    ultimately show ?thesis using s(1) by blast
  qed
  then show ?thesis
    using predict_sla_violation_guard[of self x rnd] detect_anomaly_guard[of self x]
      explain_prediction_guard[of self x]
    by blast
qed

theorem serving_methods_not_loaded_guard_witness:
  "\<not> models_loaded (init ''models'')
   \<and> predict_sla_violation (init ''models'') [100, 20, 10, 1, 5, 0.5] 0
       = Inl (NotLoaded ''SLA predictor model not loaded'')
   \<and> detect_anomaly (init ''models'') [100, 20, 10, 1, 5, 0.5]
       = Inl (NotLoaded ''Anomaly detector model not loaded'')
   \<and> explain_prediction (init ''models'') [100, 20, 10, 1, 5, 0.5]
       = Inl (NotLoaded ''Models not loaded'')
   \<and> sklearn_importable no_artifacts
   \<and> create_fallback_models no_artifacts (init ''models'') = Inr (fallback_bundle ''models'')
   \<and> predict_sla_violation (fallback_bundle ''models'') [100, 20, 10, 1, 5, 0.5] 0
       \<noteq> Inl (NotLoaded ''SLA predictor model not loaded'')"
proof -
  have a: "\<not> models_loaded (init ''models'')" by (simp add: init_def)
  have b: "sklearn_importable no_artifacts" by (simp add: no_artifacts_def)
  have c: "create_fallback_models no_artifacts (init ''models'') = Inr (fallback_bundle ''models'')"
    by (simp add: create_fallback_models_def no_artifacts_def init_def fallback_bundle_def)
  have d: "predict_sla_violation (init ''models'') [100, 20, 10, 1, 5, 0.5] 0
       = Inl (NotLoaded ''SLA predictor model not loaded'')"
    "detect_anomaly (init ''models'') [100, 20, 10, 1, 5, 0.5]
       = Inl (NotLoaded ''Anomaly detector model not loaded'')"
    "explain_prediction (init ''models'') [100, 20, 10, 1, 5, 0.5]
       = Inl (NotLoaded ''Models not loaded'')"
    by (simp_all add: predict_sla_violation_def detect_anomaly_def explain_prediction_def init_def)
  show ?thesis
    using a b c d serving_methods_not_loaded_guard[of "init ''models''" "[100, 20, 10, 1, 5, 0.5]" 0 no_artifacts]
    by auto
qed

text \<open>
  The claim as written fails: a load of a directory with the anomaly detector alone
  completes with the loaded flag True, and \<open>predict_sla_violation\<close> still raises.
\<close>

theorem predict_sla_violation_not_loaded_after_load:
  "load_models only_anomaly_detector (init ''models'') = Inr (detector_only_bundle ''models'')
   \<and> models_loaded (detector_only_bundle ''models'')
   \<and> valid_features [100, 20, 10, 1, 5, 0.5]
   \<and> predict_sla_violation (detector_only_bundle ''models'') [100, 20, 10, 1, 5, 0.5] 0
       = Inl (NotLoaded ''SLA predictor model not loaded'')"
  by (simp add: load_models_def load_body_def load_feature_names_def model_files_def
      load_scalers_def load_finish_def only_anomaly_detector_def init_def
      detector_only_bundle_def valid_features_def predict_sla_violation_def)

subsection \<open>C8: exceptions raised while serving\<close>

text \<open>
  C8, as it holds on the code. With the models loaded, an exception raised by any step of
  \<open>predict_sla_violation\<close> (predict, predict_proba) or of \<open>detect_anomaly\<close> (the scaler,
  predict, decision_function, the explanation) is the outcome of the call. In
  \<open>explain_prediction\<close> an exception of the body is caught and the simple explanation is
  returned in its place.
\<close>

theorem serving_errors:
  assumes "models_loaded self"
  shows
   "(map_of (models self) ''sla_predictor'' = Some (SLAModel m) \<longrightarrow>
       (sla_predict m x = Inl e \<longrightarrow> predict_sla_violation self x rnd = Inl e)
     \<and> (sla_predict m x = Inr p \<and> sla_predict_proba m = Some pp \<and> pp x = Inl e \<longrightarrow>
          predict_sla_violation self x rnd = Inl e))
  \<and> (map_of (models self) ''anomaly_detector'' = Some (AnomalyModel d) \<longrightarrow>
       (scale_features self x = Inl e \<longrightarrow> detect_anomaly self x = Inl e)
     \<and> (scale_features self x = Inr xs \<and> anomaly_predict d xs = Inl e \<longrightarrow>
          detect_anomaly self x = Inl e)
     \<and> (scale_features self x = Inr xs \<and> anomaly_predict d xs = Inr q
          \<and> anomaly_decision_function d = Some df \<and> df xs = Inl e \<longrightarrow>
          detect_anomaly self x = Inl e)
     \<and> (scale_features self x = Inr xs \<and> anomaly_predict d xs = Inr q
          \<and> (anomaly_decision_function d = None \<or> (\<exists>raw. anomaly_decision_function d = Some df \<and> df xs = Inr raw))
          \<and> generate_anomaly_explanation x (q = - 1) = Inl e \<longrightarrow>
          detect_anomaly self x = Inl e))
  \<and> (explain_body self x = Inl e \<longrightarrow>
       explain_prediction self x = generate_simple_explanation self x)"
  using assms
  by (auto simp: predict_sla_violation_def detect_anomaly_def explain_prediction_def)

theorem serving_errors_witness:
  "models_loaded (failing_explainer_bundle ''models'')
   \<and> explain_body (failing_explainer_bundle ''models'') [100, 20, 10, 1, 5, 0.5]
        = Inl (ArtifactError ''shap failure'')
   \<and> explain_prediction (failing_explainer_bundle ''models'') [100, 20, 10, 1, 5, 0.5]
        = generate_simple_explanation (failing_explainer_bundle ''models'')
            [100, 20, 10, 1, 5, 0.5]
   \<and> models_loaded (failing_predictor_bundle ''models'')
   \<and> map_of (models (failing_predictor_bundle ''models'')) ''sla_predictor''
        = Some (SLAModel failing_predictor)
   \<and> sla_predict failing_predictor [100, 20, 10, 1, 5, 0.5]
        = Inl (ArtifactError ''predict failure'')
   \<and> predict_sla_violation (failing_predictor_bundle ''models'') [100, 20, 10, 1, 5, 0.5] 0
        = Inl (ArtifactError ''predict failure'')"
proof -
  have l: "models_loaded (failing_explainer_bundle ''models'')"
    by (simp add: failing_explainer_bundle_def)
  have b: "explain_body (failing_explainer_bundle ''models'') [100, 20, 10, 1, 5, 0.5]
        = Inl (ArtifactError ''shap failure'')"
    by (simp add: failing_explainer_bundle_def failing_explainer_def explain_body_def
        lift_artifact_def)
  have l2: "models_loaded (failing_predictor_bundle ''models'')"
    by (simp add: failing_predictor_bundle_def)
  have m: "map_of (models (failing_predictor_bundle ''models'')) ''sla_predictor''
             = Some (SLAModel failing_predictor)"
    by (simp add: failing_predictor_bundle_def)
  have p: "sla_predict failing_predictor [100, 20, 10, 1, 5, 0.5]
             = Inl (ArtifactError ''predict failure'')"
    by (simp add: failing_predictor_def lift_artifact_def)
  show ?thesis
    using l b l2 m p
      serving_errors[OF l, of _ "[100, 20, 10, 1, 5, 0.5]" "ArtifactError ''shap failure''"]
      serving_errors[OF l2, of failing_predictor "[100, 20, 10, 1, 5, 0.5]"
        "ArtifactError ''predict failure''" 0]
    by simp
qed

text \<open>
  The claim as written fails for \<open>explain_prediction\<close>: the explainer raises on a valid
  vector and the caller gets the heuristic explanation with base value 0.5.
\<close>

theorem explain_prediction_defaults_on_error:
  "load_models only_failing_explainer (init ''models'') = Inr (failing_explainer_bundle ''models'')
   \<and> valid_features [100, 20, 10, 1, 5, 0.5]
   \<and> explain_body (failing_explainer_bundle ''models'') [100, 20, 10, 1, 5, 0.5]
        = Inl (ArtifactError ''shap failure'')
   \<and> map_sum id shap_values (explain_prediction (failing_explainer_bundle ''models'') [100, 20, 10, 1, 5, 0.5])
        = Inr [1 / 10, 3 / 20, 1 / 5, 1 / 40, 1 / 8, 1 / 400]
   \<and> map_sum id base_value (explain_prediction (failing_explainer_bundle ''models'') [100, 20, 10, 1, 5, 0.5])
        = Inr (1 / 2)"
  by (simp add: load_models_def load_body_def load_feature_names_def model_files_def
      load_scalers_def load_finish_def only_failing_explainer_def init_def
      failing_explainer_bundle_def failing_explainer_def valid_features_def
      explain_body_def explain_prediction_def lift_artifact_def
      generate_simple_explanation_def default_feature_names_def importance_weights_def Let_def)

subsection \<open>C6: the heuristic explanation\<close>

lemma generate_simple_explanation_default:
  assumes "feature_names self = default_feature_names"
  shows "generate_simple_explanation self [a, b, c, d, e, f] =
     Inr \<lparr>feature_importance =
            [''bandwidth'' \<mapsto> min (a / 10) 1 * 0.1,
             ''throughput'' \<mapsto> min (b / 10) 1 * 0.15,
             ''congestion'' \<mapsto> min (c / 10) 1 * 0.2,
             ''packet_loss'' \<mapsto> min (d / 10) 1 * 0.25,
             ''latency'' \<mapsto> min (e / 10) 1 * 0.25,
             ''jitter'' \<mapsto> min (f / 10) 1 * 0.05],
          shap_values =
            [min (a / 10) 1 * 0.1, min (b / 10) 1 * 0.15, min (c / 10) 1 * 0.2,
             min (d / 10) 1 * 0.25, min (e / 10) 1 * 0.25, min (f / 10) 1 * 0.05],
          base_value = 0.5\<rparr>"
  using assms
  by (simp add: generate_simple_explanation_def default_feature_names_def
      importance_weights_def Let_def)

text \<open>
  C6, as it holds on the code. With the models loaded, no SHAP explainer stored and the
  predictor's feature names being the six default names,
  \<open>explain_prediction\<close> returns for every valid feature vector the contributions
  \<open>min(value / 10, 1) * weight\<close>, keyed by exactly the six feature names, with base value
  0.5; the weights are 0.10, 0.15, 0.20, 0.25, 0.25, 0.05, they sum to 1 and their maximum
  0.25 is the weight of packet loss and of latency.
\<close>

theorem explain_prediction_fallback:
  assumes "valid_features x" "models_loaded self"
    and "map_of (models self) ''shap_explainer'' = None"
    and "feature_names self = default_feature_names"
  shows "\<exists>r. explain_prediction self x = Inr r
     \<and> shap_values r = map2 (\<lambda>v w. min (v / 10) 1 * w) x importance_weights
     \<and> feature_importance r = map_of (zip default_feature_names (shap_values r))
     \<and> dom (feature_importance r) = set default_feature_names
     \<and> base_value r = 0.5
     \<and> importance_weights = [0.10, 0.15, 0.20, 0.25, 0.25, 0.05]
     \<and> sum_list importance_weights = 1
     \<and> Max (set importance_weights) = 0.25"
proof -
  have len: "length x = 6" using assms(1) by (simp add: valid_features_def)
  obtain a b c d e f where x: "x = [a, b, c, d, e, f]" using len by (rule length6_cases)
  have ex: "explain_prediction self x = generate_simple_explanation self x"
    using assms(2,3) by (simp add: explain_prediction_def explain_body_def split: sum.splits)
  have w: "importance_weights = [0.10, 0.15, 0.20, 0.25, 0.25, 0.05]"
    "sum_list importance_weights = 1" "Max (set importance_weights) = 0.25"
    by (simp_all add: importance_weights_def)
  define r where "r = \<lparr>feature_importance =
            [''bandwidth'' \<mapsto> min (a / 10) 1 * 0.1,
             ''throughput'' \<mapsto> min (b / 10) 1 * 0.15,
             ''congestion'' \<mapsto> min (c / 10) 1 * 0.2,
             ''packet_loss'' \<mapsto> min (d / 10) 1 * 0.25,
             ''latency'' \<mapsto> min (e / 10) 1 * 0.25,
             ''jitter'' \<mapsto> min (f / 10) 1 * 0.05],
          shap_values =
            [min (a / 10) 1 * 0.1, min (b / 10) 1 * 0.15, min (c / 10) 1 * 0.2,
             min (d / 10) 1 * 0.25, min (e / 10) 1 * 0.25, min (f / 10) 1 * 0.05],
          base_value = 0.5\<rparr>"
  have res: "explain_prediction self x = Inr r"
    using ex generate_simple_explanation_default[OF assms(4), of a b c d e f]
    by (simp add: x r_def)
  have sv: "shap_values r = map2 (\<lambda>v w. min (v / 10) 1 * w) x importance_weights"
    by (simp add: r_def x importance_weights_def)
  have fi: "feature_importance r = map_of (zip default_feature_names (shap_values r))"
    by (rule ext) (simp add: r_def default_feature_names_def)
  have dm: "dom (feature_importance r) = set default_feature_names"
    by (auto simp: r_def default_feature_names_def)
  have bv: "base_value r = 0.5" by (simp add: r_def)
  show ?thesis using res sv fi dm bv w by blast
qed

theorem explain_prediction_fallback_witness:
  "valid_features [100, 20, 10, 1, 5, 0.5] \<and> models_loaded (fallback_bundle ''models'')
   \<and> map_of (models (fallback_bundle ''models'')) ''shap_explainer'' = None
   \<and> feature_names (fallback_bundle ''models'') = default_feature_names
   \<and> (\<exists>r. explain_prediction (fallback_bundle ''models'') [100, 20, 10, 1, 5, 0.5] = Inr r
        \<and> shap_values r = [1 / 10, 3 / 20, 1 / 5, 1 / 40, 1 / 8, 1 / 400]
        \<and> dom (feature_importance r) = set default_feature_names
        \<and> base_value r = 0.5)"
proof -
  let ?x = "[100, 20, 10, 1, 5, 0.5] :: real list"
  let ?s = "fallback_bundle ''models''"
  have v: "valid_features ?x" by (simp add: valid_features_def)
  have l: "models_loaded ?s" by (simp add: fallback_bundle_def)
  have m: "map_of (models ?s) ''shap_explainer'' = None" by (simp add: fallback_bundle_def)
  have n: "feature_names ?s = default_feature_names" by (simp add: fallback_bundle_def)
  obtain r where r: "explain_prediction ?s ?x = Inr r"
    "shap_values r = map2 (\<lambda>v w. min (v / 10) 1 * w) ?x importance_weights"
    "dom (feature_importance r) = set default_feature_names" "base_value r = 0.5"
    using explain_prediction_fallback[OF v l m n] by blast
  have "shap_values r = [1 / 10, 3 / 20, 1 / 5, 1 / 40, 1 / 8, 1 / 400]"
    unfolding r(2) by (simp add: importance_weights_def)
  with r(1,3,4) v l m n show ?thesis by blast
qed

text \<open>
  The claim as written fails: the keys are the predictor's feature names, whatever they
  are. After a load of a directory whose file of feature names holds two other names, with
  no SHAP explainer, the result has the two keys latency and jitter, and under them the
  contributions of the first two values of the vector.
\<close>

theorem explain_prediction_keys_follow_feature_names:
  "load_models foreign_names_directory (init ''models'') = Inr (foreign_names_bundle ''models'')
   \<and> valid_features [100, 20, 10, 1, 5, 0.5]
   \<and> models_loaded (foreign_names_bundle ''models'')
   \<and> map_of (models (foreign_names_bundle ''models'')) ''shap_explainer'' = None
   \<and> map_sum id feature_importance
        (explain_prediction (foreign_names_bundle ''models'') [100, 20, 10, 1, 5, 0.5])
        = Inr [''latency'' \<mapsto> 1 / 10, ''jitter'' \<mapsto> 3 / 20]
   \<and> map_sum id shap_values
        (explain_prediction (foreign_names_bundle ''models'') [100, 20, 10, 1, 5, 0.5])
        = Inr [1 / 10, 3 / 20]
   \<and> ''bandwidth'' \<notin> dom [''latency'' \<mapsto> (1 / 10 :: real), ''jitter'' \<mapsto> 3 / 20]"
  by (simp add: load_models_def load_body_def load_feature_names_def model_files_def
      load_scalers_def load_finish_def foreign_names_directory_def init_def
      foreign_names_bundle_def valid_features_def explain_prediction_def explain_body_def
      generate_simple_explanation_def importance_weights_def default_feature_names_def Let_def)

subsection \<open>Facts about load_models\<close>

lemma create_fallback_models_eq:
  "create_fallback_models env self =
     (if sklearn_importable env
      then Inr (self\<lparr>models := update_all fallback_models (models self),
                     scalers := (scalers self)(''standard'' \<mapsto> FallbackScaler),
                     feature_names := default_feature_names,
                     models_loaded := True\<rparr>)
      else Inr (self\<lparr>models_loaded := False\<rparr>))"
  by (simp add: create_fallback_models_def fallback_models_def)

lemma load_model_files_ok:
  "\<not> files_raise fs \<Longrightarrow>
     load_model_files fs self = Inr (self\<lparr>models := update_all (loaded_prefix fs) (models self)\<rparr>)"
proof (induction fs arbitrary: self rule: loaded_prefix.induct)
  case 1
  show ?case by simp
next
  case (2 model_name rest)
  then show ?case by simp
next
  case (3 model_name msg rest)
  then show ?case by simp
next
  case (4 model_name a rest)
  then show ?case by simp
qed

lemma load_model_files_raise:
  "files_raise fs \<Longrightarrow>
     \<exists>e. load_model_files fs self =
       Inl (e, self\<lparr>models := update_all (loaded_prefix fs) (models self)\<rparr>)"
proof (induction fs arbitrary: self rule: loaded_prefix.induct)
  case 1
  then show ?case by simp
next
  case (2 model_name rest)
  then show ?case by simp
next
  case (3 model_name msg rest)
  then show ?case by simp
next
  case (4 model_name a rest)
  from 4 have "files_raise rest" by simp
  from 4(1)[OF this, of "self\<lparr>models := AList.update model_name a (models self)\<rparr>"]
  show ?case by simp
qed

lemma load_body_no_dir:
  "\<not> dir_exists env \<Longrightarrow> load_models env self = create_fallback_models env self"
  by (simp add: load_models_def load_body_def create_fallback_models_def)

lemma load_models_names_raise:
  assumes "dir_exists env" "raises (feature_names_pkl env)"
  shows "load_models env self = create_fallback_models env self"
  using assms
  by (auto simp: load_models_def load_body_def load_feature_names_def raises_def
      split: option.splits sum.splits)

lemma load_feature_names_ok:
  assumes "\<not> raises (feature_names_pkl env)"
  shows "load_feature_names env self = Inr (self\<lparr>feature_names := names_loaded env\<rparr>)"
  using assms
  by (auto simp: load_feature_names_def raises_def names_loaded_def split: option.splits sum.splits)

lemma load_scalers_ok:
  assumes "\<not> raises (scaler_standard_pkl env)"
  shows "load_scalers env self = Inr (self\<lparr>scalers := scalers_loaded env (scalers self)\<rparr>)"
  using assms
  by (auto simp: load_scalers_def raises_def scalers_loaded_def split: option.splits sum.splits)

lemma load_scalers_raise:
  assumes "raises (scaler_standard_pkl env)"
  shows "\<exists>e. load_scalers env self = Inl (e, self)"
  using assms
  by (auto simp: load_scalers_def raises_def split: option.splits sum.splits)

lemma load_models_later_raise:
  assumes "dir_exists env" "\<not> raises (feature_names_pkl env)"
    and "files_raise (model_files env) \<or> raises (scaler_standard_pkl env)"
  shows "load_models env self = create_fallback_models env (after_models env self)"
proof (cases "files_raise (model_files env)")
  case True
  obtain e where "load_model_files (model_files env) (self\<lparr>feature_names := names_loaded env\<rparr>)
      = Inl (e, after_models env self)"
    using load_model_files_raise[OF True, of "self\<lparr>feature_names := names_loaded env\<rparr>"]
    by (auto simp: after_models_def)
  then show ?thesis
    using assms(1) load_feature_names_ok[OF assms(2)]
    by (simp add: load_models_def load_body_def)
next
  case False
  with assms(3) have sc: "raises (scaler_standard_pkl env)" by simp
  have m: "load_model_files (model_files env) (self\<lparr>feature_names := names_loaded env\<rparr>)
      = Inr (after_models env self)"
    using load_model_files_ok[OF False, of "self\<lparr>feature_names := names_loaded env\<rparr>"]
    by (simp add: after_models_def)
  obtain e where "load_scalers env (after_models env self) = Inl (e, after_models env self)"
    using load_scalers_raise[OF sc] by blast
  then show ?thesis
    using assms(1) load_feature_names_ok[OF assms(2)] m
    by (simp add: load_models_def load_body_def)
qed

lemma load_models_no_raise:
  assumes "dir_exists env" "\<not> raises (feature_names_pkl env)"
    and "\<not> files_raise (model_files env)" "\<not> raises (scaler_standard_pkl env)"
  shows "load_models env self =
     (if update_all (loaded_prefix (model_files env)) (models self) = []
      then create_fallback_models env
             ((after_models env self)\<lparr>scalers := scalers_loaded env (scalers self)\<rparr>)
      else Inr ((after_models env self)\<lparr>scalers := scalers_loaded env (scalers self),
                                         models_loaded := True\<rparr>))"
proof -
  have m: "load_model_files (model_files env) (self\<lparr>feature_names := names_loaded env\<rparr>)
      = Inr (after_models env self)"
    using load_model_files_ok[OF assms(3), of "self\<lparr>feature_names := names_loaded env\<rparr>"]
    by (simp add: after_models_def)
  show ?thesis
    using assms(1) load_feature_names_ok[OF assms(2)] m
      load_scalers_ok[OF assms(4), of "after_models env self"]
    by (simp add: load_models_def load_body_def load_finish_def create_fallback_models_eq
        after_models_def)
qed

lemma keys_update_all_present:
  "set (map fst ps) \<subseteq> set (map fst al) \<Longrightarrow> map fst (update_all ps al) = map fst al"
proof (induction ps arbitrary: al)
  case Nil
  show ?case by simp
next
  case (Cons p ps)
  obtain k v where p: "p = (k, v)" by (cases p)
  have k: "k \<in> set (map fst al)" using Cons.prems p by simp
  have keys: "map fst (AList.update k v al) = map fst al"
    using k by (simp add: update_keys)
  have "set (map fst ps) \<subseteq> set (map fst (AList.update k v al))"
    using Cons.prems keys by simp
  from Cons.IH[OF this] keys show ?case by (simp add: p)
qed

lemma keys_update_all_superset:
  "set (map fst al) \<union> set (map fst ps) \<subseteq> set (map fst (update_all ps al))"
proof (induction ps arbitrary: al)
  case Nil
  show ?case by simp
next
  case (Cons p ps)
  obtain k v where p: "p = (k, v)" by (cases p)
  have a: "set (map fst al) \<union> {k} \<subseteq> set (map fst (AList.update k v al))"
    by (auto simp: update_keys)
  have b: "set (map fst (p # ps)) = {k} \<union> set (map fst ps)" by (simp add: p)
  have c: "update_all (p # ps) al = update_all ps (AList.update k v al)" by (simp add: p)
  show ?case unfolding b c using a Cons.IH[of "AList.update k v al"] by blast
qed

lemma keys_update_all_twice:
  "map fst (update_all ps (update_all ps al)) = map fst (update_all ps al)"
proof (rule keys_update_all_present)
  show "set (map fst ps) \<subseteq> set (map fst (update_all ps al))"
    using keys_update_all_superset[of al ps] by blast
qed

lemma keys_update_all_again:
  "map fst (update_all qs (update_all ps (update_all qs (update_all ps al))))
     = map fst (update_all qs (update_all ps al))"
proof -
  let ?m = "update_all qs (update_all ps al)"
  have a: "set (map fst ps) \<subseteq> set (map fst ?m)"
    using keys_update_all_superset[of al ps] keys_update_all_superset[of "update_all ps al" qs]
    by blast
  have b: "set (map fst qs) \<subseteq> set (map fst ?m)"
    using keys_update_all_superset[of "update_all ps al" qs] by blast
  have 1: "map fst (update_all ps ?m) = map fst ?m" by (rule keys_update_all_present[OF a])
  have "set (map fst qs) \<subseteq> set (map fst (update_all ps ?m))" unfolding 1 by (rule b)
  from keys_update_all_present[OF this] 1 show ?thesis by simp
qed

lemma update_all_Nil_iff: "update_all ps al = [] \<longleftrightarrow> ps = [] \<and> al = []"
proof (induction ps arbitrary: al)
  case Nil
  show ?case by simp
next
  case (Cons p ps)
  obtain k v where p: "p = (k, v)" by (cases p)
  have "AList.update k v al \<noteq> []" by (cases al) auto
  with Cons.IH[of "AList.update k v al"] show ?case by (simp add: p)
qed

lemma loaded_prefix_Nil:
  "\<not> files_raise fs \<Longrightarrow> loaded_prefix fs = [] \<longleftrightarrow> (\<forall>f \<in> set fs. snd f = None)"
  by (induction fs rule: loaded_prefix.induct) auto

lemma get_model_info_eq_iff:
  "get_model_info a = get_model_info b \<longleftrightarrow>
     models_loaded a = models_loaded b \<and> map fst (models a) = map fst (models b)
     \<and> feature_names a = feature_names b \<and> model_dir a = model_dir b"
  by (auto simp: get_model_info_def)

subsection \<open>C5: loading degrades to the fallback models\<close>

lemma files_raise_model_files:
  "files_raise (model_files env) \<longleftrightarrow>
     raises (sla_predictor_pkl env) \<or> raises (anomaly_detector_pkl env)
     \<or> raises (shap_explainer_pkl env)"
proof -
  have r: "files_raise ((n, map_option (map_sum id c) f) # rest) \<longleftrightarrow> raises f \<or> files_raise rest"
    for n :: string and c :: "'x \<Rightarrow> artifact" and f rest
    by (cases f) (auto simp: raises_def split: sum.splits)
  show ?thesis by (simp add: model_files_def r)
qed

lemma model_files_all_absent:
  "(\<forall>f \<in> set (model_files env). snd f = None) \<longleftrightarrow>
     sla_predictor_pkl env = None \<and> anomaly_detector_pkl env = None
     \<and> shap_explainer_pkl env = None"
  by (simp add: model_files_def)

lemma load_models_fallback:
  assumes "artifacts_unavailable env"
  shows "\<exists>s0. load_models env (init dir) = create_fallback_models env s0"
proof -
  consider (nodir) "\<not> dir_exists env"
    | (names) "dir_exists env" "raises (feature_names_pkl env)"
    | (later) "dir_exists env" "\<not> raises (feature_names_pkl env)"
        "files_raise (model_files env) \<or> raises (scaler_standard_pkl env)"
    | (quiet) "dir_exists env" "\<not> raises (feature_names_pkl env)"
        "\<not> files_raise (model_files env)" "\<not> raises (scaler_standard_pkl env)"
    by blast
  then show ?thesis
  proof cases
    case nodir
    then show ?thesis using load_body_no_dir by blast
  next
    case names
    then show ?thesis using load_models_names_raise by blast
  next
    case later
    then show ?thesis using load_models_later_raise by blast
  next
    case quiet
    have "sla_predictor_pkl env = None \<and> anomaly_detector_pkl env = None
          \<and> shap_explainer_pkl env = None"
      using assms quiet files_raise_model_files[of env]
      by (simp add: artifacts_unavailable_def)
    then have "loaded_prefix (model_files env) = []"
      using loaded_prefix_Nil[OF quiet(3)] model_files_all_absent[of env] by simp
    then have "update_all (loaded_prefix (model_files env)) (models (init dir)) = []"
      by (simp add: init_def)
    then show ?thesis
      using load_models_no_raise[OF quiet, of "init dir"] by auto
  qed
qed

lemma load_models_total: "\<exists>s. load_models env self = Inr s"
  by (auto simp: load_models_def create_fallback_models_def split: sum.splits prod.splits)

text \<open>
  C5, as it holds on the code. When the model directory is missing, a file cannot be loaded
  or no model file is found, \<open>load_models\<close> on a fresh predictor raises nothing. If sklearn
  can be imported, the fallback predictor, detector and scaler are installed, the feature
  names are the six default names and the loaded flag is True; if the import fails, the
  loaded flag is False.
\<close>

theorem load_models_degrades_to_fallback:
  assumes "artifacts_unavailable env"
  shows "\<exists>s. load_models env (init dir) = Inr s
     \<and> (sklearn_importable env \<longrightarrow>
          models_loaded s
          \<and> map_of (models s) ''sla_predictor'' = Some (SLAModel FallbackSLAPredictor)
          \<and> map_of (models s) ''anomaly_detector'' = Some (AnomalyModel FallbackAnomalyDetector)
          \<and> scalers s ''standard'' = Some FallbackScaler
          \<and> feature_names s = default_feature_names)
     \<and> (\<not> sklearn_importable env \<longrightarrow> \<not> models_loaded s)"
proof -
  obtain s0 where s0: "load_models env (init dir) = create_fallback_models env s0"
    using load_models_fallback[OF assms] by blast
  show ?thesis
  proof (cases "sklearn_importable env")
    case True
    then show ?thesis
      using create_fallback_models_installed[OF True, of s0] s0 by auto
  next
    case False
    then show ?thesis
      using s0 by (simp add: create_fallback_models_def)
  qed
qed

theorem load_models_degrades_to_fallback_witness:
  "artifacts_unavailable no_artifacts \<and> sklearn_importable no_artifacts
   \<and> load_models no_artifacts (init ''models'') = Inr (fallback_bundle ''models'')
   \<and> models_loaded (fallback_bundle ''models'')
   \<and> feature_names (fallback_bundle ''models'') = default_feature_names"
proof -
  have a: "artifacts_unavailable no_artifacts"
    by (simp add: artifacts_unavailable_def no_artifacts_def)
  have b: "sklearn_importable no_artifacts" by (simp add: no_artifacts_def)
  show ?thesis
    using a b load_models_degrades_to_fallback[OF a, of "''models''"] load_no_artifacts[of "''models''"] by auto
qed

text \<open>
  The claim as written fails: without sklearn the creation of the fallback models fails
  too, and the loaded flag ends False.
\<close>

theorem load_models_fallback_creation_fails:
  "artifacts_unavailable no_sklearn
   \<and> load_models no_sklearn (init ''models'') = Inr (init ''models'')
   \<and> \<not> models_loaded (init ''models'')"
  by (simp add: artifacts_unavailable_def no_sklearn_def no_artifacts_def load_models_def
      load_body_def create_fallback_models_def init_def)

subsection \<open>C9: loading twice\<close>

lemma create_fallback_info:
  "\<exists>s. create_fallback_models env a = Inr s
     \<and> model_dir s = model_dir a
     \<and> (if sklearn_importable env
         then models_loaded s \<and> feature_names s = default_feature_names
              \<and> models s = update_all fallback_models (models a)
         else \<not> models_loaded s \<and> feature_names s = feature_names a \<and> models s = models a)"
  by (simp add: create_fallback_models_eq)

lemma twice_fallback:
  assumes 1: "\<And>self. load_models env self = create_fallback_models env (t self)"
    and t: "\<And>self. model_dir (t self) = model_dir self"
      "\<And>self. models (t self) = update_all ps (models self)"
      "\<And>a b. feature_names b = feature_names (t a) \<Longrightarrow>
               feature_names (t b) = feature_names (t a)"
  shows "\<exists>s1 s2. load_models env x = Inr s1 \<and> load_models env s1 = Inr s2
     \<and> get_model_info s2 = get_model_info s1"
proof -
  obtain s1 where s1: "create_fallback_models env (t x) = Inr s1"
    "model_dir s1 = model_dir (t x)"
    "if sklearn_importable env
         then models_loaded s1 \<and> feature_names s1 = default_feature_names
              \<and> models s1 = update_all fallback_models (models (t x))
         else \<not> models_loaded s1 \<and> feature_names s1 = feature_names (t x) \<and> models s1 = models (t x)"
    using create_fallback_info[of env "t x"] by blast
  obtain s2 where s2: "create_fallback_models env (t s1) = Inr s2"
    "model_dir s2 = model_dir (t s1)"
    "if sklearn_importable env
         then models_loaded s2 \<and> feature_names s2 = default_feature_names
              \<and> models s2 = update_all fallback_models (models (t s1))
         else \<not> models_loaded s2 \<and> feature_names s2 = feature_names (t s1) \<and> models s2 = models (t s1)"
    using create_fallback_info[of env "t s1"] by blast
  have "get_model_info s2 = get_model_info s1"
  proof (cases "sklearn_importable env")
    case True
    have "map fst (models s2) = map fst (models s1)"
      using s1(3) s2(3) True keys_update_all_again[of fallback_models ps "models x"]
      by (simp add: t)
    then show ?thesis
      using s1 s2 True by (simp add: get_model_info_eq_iff t)
  next
    case False
    have "map fst (models s2) = map fst (models s1)"
      using s1(3) s2(3) False keys_update_all_twice[of ps "models x"]
      by (simp add: t)
    moreover have "feature_names s2 = feature_names s1"
      using s1(3) s2(3) False t(3)[of s1 x] by simp
    ultimately show ?thesis
      using s1 s2 False by (simp add: get_model_info_eq_iff t)
  qed
  then show ?thesis using 1[of x] 1[of s1] s1(1) s2(1) by simp
qed


lemma names_loaded_default:
  assumes "\<forall>names. feature_names_pkl env = Some (Inr names) \<longrightarrow> names = default_feature_names"
  shows "names_loaded env = default_feature_names"
  using assms by (auto simp: names_loaded_def split: option.splits sum.splits)

text \<open>
  C9, as it holds on the code. Loading a fresh predictor twice from the same directory
  gives the same \<open>get_model_info\<close> as loading it once, provided that the file of feature
  names, when it can be read, holds the six default names, or that at least one of the three
  model files exists.
\<close>

theorem load_models_idempotent:
  assumes "(\<forall>names. feature_names_pkl env = Some (Inr names) \<longrightarrow> names = default_feature_names)
     \<or> sla_predictor_pkl env \<noteq> None \<or> anomaly_detector_pkl env \<noteq> None
     \<or> shap_explainer_pkl env \<noteq> None"
  shows "\<exists>s1 s2. load_models env (init dir) = Inr s1 \<and> load_models env s1 = Inr s2
     \<and> get_model_info s2 = get_model_info s1"
proof -
  let ?P = "loaded_prefix (model_files env)"
  consider (nodir) "\<not> dir_exists env"
    | (names) "dir_exists env" "raises (feature_names_pkl env)"
    | (later) "dir_exists env" "\<not> raises (feature_names_pkl env)"
        "files_raise (model_files env) \<or> raises (scaler_standard_pkl env)"
    | (quiet) "dir_exists env" "\<not> raises (feature_names_pkl env)"
        "\<not> files_raise (model_files env)" "\<not> raises (scaler_standard_pkl env)"
    by blast
  then show ?thesis
  proof cases
    case nodir
    show ?thesis
      by (rule twice_fallback[where t = "\<lambda>s. s" and ps = "[]"])
         (simp_all add: load_body_no_dir[OF nodir])
  next
    case names
    show ?thesis
      by (rule twice_fallback[where t = "\<lambda>s. s" and ps = "[]"])
         (simp_all add: load_models_names_raise[OF names])
  next
    case later
    show ?thesis
      by (rule twice_fallback[where t = "after_models env" and ps = ?P])
         (simp_all add: load_models_later_raise[OF later] after_models_def)
  next
    case quiet
    note load = load_models_no_raise[OF quiet]
    show ?thesis
    proof (cases "?P = []")
      case False
      then have ne: "update_all ?P al \<noteq> []" for al by (simp add: update_all_Nil_iff)
      let ?t = "\<lambda>s. (after_models env s)\<lparr>scalers := scalers_loaded env (scalers s),
                                         models_loaded := True\<rparr>"
      have l: "load_models env s = Inr (?t s)" for s using load[of s] ne by simp
      have "get_model_info (?t (?t (init dir))) = get_model_info (?t (init dir))"
        using keys_update_all_twice[of ?P "models (init dir)"]
        by (simp add: get_model_info_eq_iff after_models_def)
      then show ?thesis using l by blast
    next
      case True
      have absent: "sla_predictor_pkl env = None \<and> anomaly_detector_pkl env = None
          \<and> shap_explainer_pkl env = None"
        using True loaded_prefix_Nil[OF quiet(3)] model_files_all_absent[of env] by simp
      with assms have "\<forall>names. feature_names_pkl env = Some (Inr names) \<longrightarrow>
          names = default_feature_names"
        by simp
      then have nd: "names_loaded env = default_feature_names"
        by (rule names_loaded_default)
      let ?u = "\<lambda>s. (after_models env s)\<lparr>scalers := scalers_loaded env (scalers s)\<rparr>"
      have l1: "load_models env (init dir) = create_fallback_models env (?u (init dir))"
        using load[of "init dir"] True by (simp add: init_def)
      show ?thesis
      proof (cases "sklearn_importable env")
        case sk: True
        define s1 where "s1 = (?u (init dir))\<lparr>models := update_all fallback_models [],
                     scalers := (scalers (?u (init dir)))(''standard'' \<mapsto> FallbackScaler),
                     feature_names := default_feature_names,
                     models_loaded := True\<rparr>"
        have r1: "load_models env (init dir) = Inr s1"
          using l1 sk by (simp add: create_fallback_models_eq s1_def after_models_def True init_def)
        have m1: "models s1 = update_all fallback_models []" by (simp add: s1_def)
        then have ne: "update_all ?P (models s1) \<noteq> []"
          by (simp add: True fallback_models_def)
        define s2 where "s2 = (after_models env s1)\<lparr>scalers := scalers_loaded env (scalers s1),
                                         models_loaded := True\<rparr>"
        have r2: "load_models env s1 = Inr s2"
          using load[of s1] ne by (simp add: s2_def)
        have "get_model_info s2 = get_model_info s1"
          by (simp add: get_model_info_eq_iff s2_def after_models_def True nd s1_def)
        with r1 r2 show ?thesis by blast
      next
        case nsk: False
        define s1 where "s1 = (?u (init dir))\<lparr>models_loaded := False\<rparr>"
        have r1: "load_models env (init dir) = Inr s1"
          using l1 nsk by (simp add: create_fallback_models_eq s1_def)
        have m1: "models s1 = []" by (simp add: s1_def after_models_def True init_def)
        define s2 where "s2 = (?u s1)\<lparr>models_loaded := False\<rparr>"
        have r2: "load_models env s1 = Inr s2"
          using load[of s1] m1 nsk by (simp add: True create_fallback_models_eq s2_def)
        have "get_model_info s2 = get_model_info s1"
          by (simp add: get_model_info_eq_iff s2_def after_models_def True s1_def)
        with r1 r2 show ?thesis by blast
      qed
    qed
  qed
qed

theorem load_models_idempotent_witness:
  "feature_names_pkl no_artifacts = None
   \<and> load_models no_artifacts (init ''models'') = Inr (fallback_bundle ''models'')
   \<and> (\<exists>s2. load_models no_artifacts (fallback_bundle ''models'') = Inr s2
         \<and> get_model_info s2 = get_model_info (fallback_bundle ''models''))"
proof -
  have n: "feature_names_pkl no_artifacts = None"
    by (simp add: no_artifacts_def)
  then have h: "(\<forall>names. feature_names_pkl no_artifacts = Some (Inr names) \<longrightarrow>
        names = default_feature_names)
     \<or> sla_predictor_pkl no_artifacts \<noteq> None \<or> anomaly_detector_pkl no_artifacts \<noteq> None
     \<or> shap_explainer_pkl no_artifacts \<noteq> None"
    by simp
  show ?thesis
    using n load_models_idempotent[OF h, of "''models''"] load_no_artifacts[of "''models''"]
    by auto
qed

text \<open>
  The claim as written fails: with a readable file of other feature names and no model
  file, the first load ends in the fallback models and the default names, and the second
  load, finding models already stored, keeps the names of the file.
\<close>

theorem load_models_twice_changes_feature_names:
  "load_models only_feature_names (init ''models'') = Inr (fallback_bundle ''models'')
   \<and> load_models only_feature_names (fallback_bundle ''models'')
       = Inr (fallback_bundle ''models''\<lparr>feature_names := [''latency'', ''jitter'']\<rparr>)
   \<and> get_model_info (fallback_bundle ''models''\<lparr>feature_names := [''latency'', ''jitter'']\<rparr>)
       \<noteq> get_model_info (fallback_bundle ''models'')"
  by (simp add: load_models_def load_body_def load_feature_names_def model_files_def
      load_scalers_def load_finish_def create_fallback_models_def only_feature_names_def
      init_def fallback_bundle_def get_model_info_def default_feature_names_def)

end
